theory Spec2Isabelle
  imports Main "HOL-Library.Signed_Division" "HOL-Library.Multiset"
begin

section \<open>Machine integers and durations\<close>

text \<open>
  The runner computes with Go's \<open>int64\<close> (\<open>time.Duration\<close>, \<open>UnixNano\<close>) and
  \<open>uint64\<close> (the atomic counters). Both are modelled as \<open>int\<close> with the wrap-around
  written out at every arithmetic operation. Go's \<open>int\<close> is taken to be 64 bits wide,
  as on the platforms the runner is built for.
\<close>

definition wrap64 :: "int \<Rightarrow> int" where
  "wrap64 x = (x + 2 ^ 63) mod 2 ^ 64 - 2 ^ 63"

definition wrapU64 :: "int \<Rightarrow> int" where
  "wrapU64 x = x mod 2 ^ 64"

definition Second :: int where "Second = 1000000000"
definition Minute :: int where "Minute = 60 * Second"
definition Hour :: int where "Hour = 60 * Minute"

section \<open>Data model\<close>

record siteInfo =
  Multisite :: int
  Siteurl :: string
  Disabled :: int

record site =
  URL :: string

text \<open>The field \<open>URL\<close> of \<open>event\<close> is named \<open>EventURL\<close>: record fields share one name space.\<close>

record event =
  EventURL :: string
  Timestamp :: int
  Action :: string
  Instance :: string

text \<open>Go's zero values \<open>siteInfo{}\<close>, \<open>site{}\<close> and \<open>event{}\<close>.\<close>

definition siteInfoZero :: siteInfo where
  "siteInfoZero = \<lparr>Multisite = 0, Siteurl = [], Disabled = 0\<rparr>"

definition siteZero :: site where
  "siteZero = \<lparr>URL = []\<rparr>"

definition eventZero :: event where
  "eventZero = \<lparr>EventURL = [], Timestamp = 0, Action = [], Instance = []\<rparr>"

text \<open>
  The flags read at start-up. \<open>debug\<close> and the logger are left out: they only write log
  lines, which the model does not record.
\<close>

record config =
  wpCliPath :: string
  wpNetwork :: int
  wpPath :: string
  heartbeatInt :: int

text \<open>
  The process-wide variables, together with what the process does to the outside:
  \<open>clock\<close> is the wall clock in nanoseconds since the Unix epoch, advanced only by
  \<open>time.Sleep\<close>; \<open>execs\<close> lists the child processes started so far (binary and argument
  vector), \<open>sitesOut\<close> and \<open>eventsOut\<close> the values \<open>heartbeat\<close> has sent on its two
  channels. The code runs as one sequential thread: another goroutine's writes (the
  signal handler's to \<open>gRestart\<close>, the workers' to the liveness slices) appear only as
  the state a function is started in.
\<close>

record world =
  clock :: int
  disabledLoopCount :: int
  eventRunErrCount :: int
  eventRunSuccessCount :: int
  gRestart :: bool
  gEventRetrieversRunning :: "bool list"
  gEventWorkersRunning :: "bool list"
  gRandomDeltaMap :: "string \<rightharpoonup> int"
  execs :: "(string \<times> string list) list"
  sitesOut :: "site list"
  eventsOut :: "event list"

text \<open>\<open>time.Now().UnixNano()\<close> and \<open>time.Now().Unix()\<close>, both \<open>int64\<close>.\<close>

definition UnixNano :: "world \<Rightarrow> int" where
  "UnixNano st = wrap64 (clock st)"

definition Unix :: "world \<Rightarrow> int" where
  "Unix st = wrap64 (clock st div 1000000000)"

text \<open>\<open>time.Sleep(d)\<close>: a negative or zero duration returns immediately.\<close>

definition Sleep :: "int \<Rightarrow> world \<Rightarrow> world" where
  "Sleep d st = (if 0 < d then st\<lparr>clock := clock st + d\<rparr> else st)"

section \<open>The environment\<close>

text \<open>
  What the process cannot decide itself is a parameter of the model. A child process
  is taken to start and to run to its end (no timeout is set on it): \<open>child\<close> gives its
  combined standard output and standard error and its exit status, from the children
  started before it, the binary and the argument vector. \<open>unmarshalSiteInfo\<close> and
  \<open>unmarshalSites\<close> are \<open>json.Unmarshal\<close> at the two slice types, \<open>None\<close> for a decoding
  error. \<open>randInt63n seed n\<close> is the value of \<open>rand.Int63n(n)\<close> right after
  \<open>rand.Seed(seed)\<close>, and \<open>randIntn k n\<close> the value of the \<open>k\<close>-th \<open>rand.Intn(n)\<close> of a
  shuffle; \<open>math/rand\<close> promises \<open>0 \<le> randInt63n seed n < n\<close> and \<open>randIntn k n < n\<close>
  for \<open>0 < n\<close>.
\<close>

record env =
  child :: "(string \<times> string list) list \<Rightarrow> string \<Rightarrow> string list \<Rightarrow> string \<times> nat"
  unmarshalSiteInfo :: "string \<Rightarrow> siteInfo list option"
  unmarshalSites :: "string \<Rightarrow> site list option"
  randInt63n :: "int \<Rightarrow> int \<Rightarrow> int"
  randIntn :: "nat \<Rightarrow> nat \<Rightarrow> nat"

datatype error = ExitError nat | UnmarshalError

datatype panic = DivideByZero | Int63nInvalidArgument | IndexOutOfRange

section \<open>Command invoker\<close>

text \<open>\<open>fmt.Sprintf("%d", n)\<close>.\<close>

fun decimal :: "nat \<Rightarrow> string" where
  "decimal n =
     (if n < 10 then [''0123456789'' ! n]
      else decimal (n div 10) @ [''0123456789'' ! (n mod 10)])"

definition formatInt :: "int \<Rightarrow> string" where
  "formatInt n = (if n < 0 then CHR ''-'' # decimal (nat (- n)) else decimal (nat n))"

text \<open>
  \<open>Cmd.CombinedOutput\<close> for a child that ran: the error is an \<open>*ExitError\<close> exactly when
  the exit status is not 0.
\<close>

definition CombinedOutput ::
  "env \<Rightarrow> world \<Rightarrow> string \<Rightarrow> string list \<Rightarrow> (string \<times> error option) \<times> world" where
  "CombinedOutput e st name arg =
     (let (out, status) = child e (execs st) name arg
      in ((out, if status = 0 then None else Some (ExitError status)),
          st\<lparr>execs := execs st @ [(name, arg)]\<rparr>))"

definition runWpCliCmd ::
  "config \<Rightarrow> env \<Rightarrow> string list \<Rightarrow> world \<Rightarrow> (string \<times> error option) \<times> world" where
  "runWpCliCmd cfg e subcommand st =
     (let subcommand1 = subcommand @ [''--allow-root'', ''--quiet'', ''--path='' @ wpPath cfg];
          subcommand2 = (if 0 < wpNetwork cfg
                         then subcommand1 @ [''--network='' @ formatInt (wpNetwork cfg)]
                         else subcommand1);
          ((wpOutStr, err), st1) = CombinedOutput e st (wpCliPath cfg) subcommand2
      in if err \<noteq> None then ((wpOutStr, err), st1) else ((wpOutStr, None), st1))"

section \<open>Periodic waiter\<close>

text \<open>
  The sleep loop of \<open>waitForEpoch\<close>. The loop variable \<open>i\<close> starts at three seconds and
  grows by each slice slept; \<open>None\<close> stands for a loop that never ends.
\<close>

partial_function (option) waitLoop :: "int \<Rightarrow> int \<Rightarrow> int \<Rightarrow> world \<Rightarrow> world option" where
  "waitLoop tNextEpoch tEpochNano i st =
     (if UnixNano st < tNextEpoch then
        if wrap64 (tEpochNano * 2) < i then Some st
        else if gRestart st then Some st
        else
          let tMaxDelta = wrap64 (3 * Second);
              tDelta0 = wrap64 (tNextEpoch - UnixNano st);
              tDelta = (if tMaxDelta < tDelta0 then tMaxDelta else tDelta0)
          in waitLoop tNextEpoch tEpochNano (wrap64 (i + tDelta)) (Sleep tDelta st)
      else Some st)"

definition waitForEpoch :: "env \<Rightarrow> string \<Rightarrow> int \<Rightarrow> world \<Rightarrow> (panic + world) option" where
  "waitForEpoch e whom epoch_sec st =
     (let tEpochNano = wrap64 (epoch_sec * Second) in
      if tEpochNano = 0 then Some (Inl DivideByZero)
      else
        let tEpochDelta0 = wrap64 (tEpochNano - UnixNano st smod tEpochNano);
            tEpochDelta = (if tEpochDelta0 < 1 * Second
                           then wrap64 (tEpochDelta0 + wrap64 (epoch_sec * Second))
                           else tEpochDelta0)
        in case (case gRandomDeltaMap st whom of
                   Some d \<Rightarrow> Inr (d, st)
                 | None \<Rightarrow>
                     if tEpochNano \<le> 0 then Inl Int63nInvalidArgument
                     else
                       let d = randInt63n e (wrap64 (UnixNano st + epoch_sec)) tEpochNano
                       in Inr (d, st\<lparr>gRandomDeltaMap := (gRandomDeltaMap st)(whom \<mapsto> d)\<rparr>)) of
             Inl p \<Rightarrow> Some (Inl p)
           | Inr (d, st1) \<Rightarrow>
               let tNextEpoch = wrap64 (wrap64 (UnixNano st1 + tEpochDelta) + d)
               in map_option Inr (waitLoop tNextEpoch tEpochNano (wrap64 (3 * Second)) st1))"

section \<open>Back-off governor\<close>

definition shouldGetSites :: "int \<Rightarrow> world \<Rightarrow> bool \<times> world" where
  "shouldGetSites disabled st =
     (if disabled = 0 then (True, st\<lparr>disabledLoopCount := 0\<rparr>)
      else
        let disabledCount = disabledLoopCount st;
            now = Unix st;
            disabledSleep = wrap64 (wrap64 (Minute * 3) * wrap64 disabledCount);
            disabledSleepSeconds = disabledSleep sdiv 1000 sdiv 1000 sdiv 1000;
            st1 = (if 1 < disabled \<and> wrap64 disabled < wrap64 (now + disabledSleepSeconds)
                   then st\<lparr>disabledLoopCount := 0\<rparr>
                   else if Hour < disabledSleep
                   then st\<lparr>disabledLoopCount := 0\<rparr>
                   else st\<lparr>disabledLoopCount := wrapU64 (disabledLoopCount st + 1)\<rparr>);
            st2 = (if 0 < disabledSleep then Sleep disabledSleep st1 else st1)
        in (False, st2))"

section \<open>Site retriever\<close>

definition getInstanceInfo ::
  "config \<Rightarrow> env \<Rightarrow> world \<Rightarrow> panic + ((siteInfo \<times> error option) \<times> world)" where
  "getInstanceInfo cfg e st =
     (let ((raw, err), st1) =
            runWpCliCmd cfg e
              [''cron-control'', ''orchestrate'', ''runner-only'', ''get-info'', ''--format=json''] st
      in if err \<noteq> None then Inr ((siteInfoZero, err), st1)
         else
           case unmarshalSiteInfo e raw of
             None \<Rightarrow> Inr ((siteInfoZero, Some UnmarshalError), st1)
           | Some jsonRes \<Rightarrow>
               (case jsonRes of
                  [] \<Rightarrow> Inl IndexOutOfRange
                | x # _ \<Rightarrow> Inr ((x, None), st1)))"

text \<open>
  The shuffle of \<open>getMultisiteSites\<close>: \<open>for i := range jsonRes\<close>, with \<open>intn i n\<close> the
  value \<open>rand.Intn(n)\<close> returns in round \<open>i\<close>.
\<close>

function shuffleLoop :: "(nat \<Rightarrow> nat \<Rightarrow> nat) \<Rightarrow> nat \<Rightarrow> 'a list \<Rightarrow> 'a list" where
  "shuffleLoop intn i jsonRes =
     (if i < length jsonRes then
        let j = intn i (i + 1)
        in shuffleLoop intn (i + 1) (jsonRes[i := jsonRes ! j, j := jsonRes ! i])
      else jsonRes)"
  by pat_completeness auto
termination
  by (relation "measure (\<lambda>(intn, i, jsonRes). length jsonRes - i)") auto

declare shuffleLoop.simps [simp del]

definition getMultisiteSites ::
  "config \<Rightarrow> env \<Rightarrow> world \<Rightarrow> (site list \<times> error option) \<times> world" where
  "getMultisiteSites cfg e st =
     (let ((raw, err), st1) =
            runWpCliCmd cfg e
              [''site'', ''list'', ''--fields=url'', ''--archived=false'', ''--deleted=false'',
               ''--spam=false'', ''--format=json''] st
      in if err \<noteq> None then (([], err), st1)
         else
           case unmarshalSites e raw of
             None \<Rightarrow> (([], Some UnmarshalError), st1)
           | Some jsonRes \<Rightarrow> ((shuffleLoop (randIntn e) 0 jsonRes, None), st1))"

definition getSites ::
  "config \<Rightarrow> env \<Rightarrow> world \<Rightarrow> panic + ((site list \<times> error option) \<times> world)" where
  "getSites cfg e st =
     (case getInstanceInfo cfg e st of
        Inl p \<Rightarrow> Inl p
      | Inr ((siteInfo0, err), st1) \<Rightarrow>
          let siteInfo = (if err \<noteq> None then siteInfo0\<lparr>Disabled := 1\<rparr> else siteInfo0);
              (run, st2) = shouldGetSites (Disabled siteInfo) st1
          in if \<not> run then Inr (([], err), st2)
             else if Multisite siteInfo = 1 then
               let ((sites, err'), st3) = getMultisiteSites cfg e st2
               in Inr (((if err' \<noteq> None then [] else sites), err'), st3)
             else Inr (([\<lparr>URL = Siteurl siteInfo\<rparr>], None), st2))"

section \<open>Event worker\<close>

definition runEventsBreakSec :: int where
  "runEventsBreakSec = 10"

datatype loopControl = Continue | Break

text \<open>
  The body of the loop of \<open>runEvents\<close>, for one event received: the state it leaves, and
  whether the loop goes on to the next event or is left.
\<close>

definition runEventsBody ::
  "config \<Rightarrow> env \<Rightarrow> event \<Rightarrow> world \<Rightarrow> (panic + (loopControl \<times> world)) option" where
  "runEventsBody cfg e ev st =
     (if gRestart st then Some (Inr (Break, st))
      else if Unix st < Timestamp ev then Some (Inr (Continue, st))
      else
        let subcommand =
              [''cron-control'', ''orchestrate'', ''runner-only'', ''run'',
               ''--timestamp='' @ formatInt (Timestamp ev), ''--action='' @ Action ev,
               ''--instance='' @ Instance ev, ''--url='' @ EventURL ev];
            ((out, err), st1) = runWpCliCmd cfg e subcommand st;
            st2 = (if err = None then
                     (if 0 < heartbeatInt cfg
                      then st1\<lparr>eventRunSuccessCount := wrapU64 (eventRunSuccessCount st1 + 1)\<rparr>
                      else st1)
                   else if 0 < heartbeatInt cfg
                   then st1\<lparr>eventRunErrCount := wrapU64 (eventRunErrCount st1 + 1)\<rparr>
                   else st1)
        in case waitForEpoch e ''runEvents'' runEventsBreakSec st2 of
             None \<Rightarrow> None
           | Some (Inl p) \<Rightarrow> Some (Inl p)
           | Some (Inr st3) \<Rightarrow>
               if gRestart st3 then Some (Inr (Break, st3)) else Some (Inr (Continue, st3)))"

text \<open>The loop over the events the worker receives until its channel is closed.\<close>

fun runEventsLoop :: "config \<Rightarrow> env \<Rightarrow> event list \<Rightarrow> world \<Rightarrow> (panic + world) option" where
  "runEventsLoop cfg e [] st = Some (Inr st)"
| "runEventsLoop cfg e (ev # evs) st =
     (case runEventsBody cfg e ev st of
        None \<Rightarrow> None
      | Some (Inl p) \<Rightarrow> Some (Inl p)
      | Some (Inr (Break, st')) \<Rightarrow> Some (Inr st')
      | Some (Inr (Continue, st')) \<Rightarrow> runEventsLoop cfg e evs st')"

definition runEvents ::
  "config \<Rightarrow> env \<Rightarrow> int \<Rightarrow> event list \<Rightarrow> world \<Rightarrow> (panic + world) option" where
  "runEvents cfg e workerID events st =
     (if workerID - 1 < 0 \<or> int (length (gEventWorkersRunning st)) \<le> workerID - 1
      then Some (Inl IndexOutOfRange)
      else
        case runEventsLoop cfg e events
               (st\<lparr>gEventWorkersRunning :=
                     (gEventWorkersRunning st)[nat (workerID - 1) := True]\<rparr>) of
          None \<Rightarrow> None
        | Some (Inl p) \<Rightarrow> Some (Inl p)
        | Some (Inr st') \<Rightarrow>
            Some (Inr (st'\<lparr>gEventWorkersRunning :=
                            (gEventWorkersRunning st')[nat (workerID - 1) := False]\<rparr>)))"

section \<open>Heartbeat and drain\<close>

text \<open>How \<open>heartbeat\<close> ends: by returning to \<open>main\<close>, or in \<open>os.Exit\<close> with a code.\<close>

datatype ending = Returned | Exited int

text \<open>The waiting loop of a disabled heartbeat (\<open>heartbeatInt == 0\<close>).\<close>

partial_function (option) heartbeatDisabledLoop :: "env \<Rightarrow> world \<Rightarrow> (panic + world) option" where
  "heartbeatDisabledLoop e st =
     (case waitForEpoch e ''heartbeat'' 60 st of
        None \<Rightarrow> None
      | Some (Inl p) \<Rightarrow> Some (Inl p)
      | Some (Inr st1) \<Rightarrow>
          if gRestart st1 then Some (Inr st1) else heartbeatDisabledLoop e st1)"

text \<open>The loop that reads and resets the two counters once per heartbeat epoch.\<close>

partial_function (option) heartbeatLoop :: "config \<Rightarrow> env \<Rightarrow> world \<Rightarrow> (panic + world) option" where
  "heartbeatLoop cfg e st =
     (case waitForEpoch e ''heartbeat'' (heartbeatInt cfg) st of
        None \<Rightarrow> None
      | Some (Inl p) \<Rightarrow> Some (Inl p)
      | Some (Inr st1) \<Rightarrow>
          if gRestart st1 then Some (Inr st1)
          else heartbeatLoop cfg e (st1\<lparr>eventRunSuccessCount := 0, eventRunErrCount := 0\<rparr>))"

text \<open>
  One pass over a liveness slice: a sentinel sent for every worker still running, and
  \<open>StillRunning\<close> set.
\<close>

primrec drainRetrievers :: "bool list \<Rightarrow> bool \<times> world \<Rightarrow> bool \<times> world" where
  "drainRetrievers [] acc = acc"
| "drainRetrievers (r # rs) acc =
     drainRetrievers rs
       (if r then (True, (snd acc)\<lparr>sitesOut := sitesOut (snd acc) @ [siteZero]\<rparr>) else acc)"

primrec drainWorkers :: "bool list \<Rightarrow> bool \<times> world \<Rightarrow> bool \<times> world" where
  "drainWorkers [] acc = acc"
| "drainWorkers (r # rs) acc =
     drainWorkers rs
       (if r then (True, (snd acc)\<lparr>eventsOut := eventsOut (snd acc) @ [eventZero]\<rparr>) else acc)"

partial_function (option) drainLoop :: "world \<Rightarrow> (ending \<times> world) option" where
  "drainLoop st =
     (let acc1 = drainRetrievers (gEventRetrieversRunning st) (False, st);
          acc2 = drainWorkers (gEventWorkersRunning (snd acc1)) acc1
      in if fst acc2 then drainLoop (Sleep (3 * Second) (snd acc2))
         else Some (Exited 0, snd acc2))"

definition heartbeat :: "config \<Rightarrow> env \<Rightarrow> world \<Rightarrow> (panic + (ending \<times> world)) option" where
  "heartbeat cfg e st =
     (if heartbeatInt cfg = 0 then
        case heartbeatDisabledLoop e st of
          None \<Rightarrow> None
        | Some (Inl p) \<Rightarrow> Some (Inl p)
        | Some (Inr st1) \<Rightarrow> Some (Inr (Returned, st1))
      else
        case heartbeatLoop cfg e st of
          None \<Rightarrow> None
        | Some (Inl p) \<Rightarrow> Some (Inl p)
        | Some (Inr st1) \<Rightarrow> map_option Inr (drainLoop st1))"

section \<open>Runs used in the properties\<close>

text \<open>
  A run of the governor over consecutive site-discovery cycles: one call per \<open>disabled\<close>
  value, each started in the state the previous one left. For every call the run keeps
  the value returned and the time the call took, which is the sleep it performed.
\<close>

primrec governorCycles :: "int list \<Rightarrow> world \<Rightarrow> (bool \<times> int) list" where
  "governorCycles [] st = []"
| "governorCycles (d # ds) st =
     (fst (shouldGetSites d st), clock (snd (shouldGetSites d st)) - clock st)
       # governorCycles ds (snd (shouldGetSites d st))"

text \<open>
  The state of the process when \<open>main\<close> starts, at wall-clock time \<open>now\<close>: Go's zero
  values, and the empty map \<open>init\<close> creates.
\<close>

definition initWorld :: "int \<Rightarrow> world" where
  "initWorld now =
     \<lparr>clock = now, disabledLoopCount = 0, eventRunErrCount = 0, eventRunSuccessCount = 0,
      gRestart = False, gEventRetrieversRunning = [], gEventWorkersRunning = [],
      gRandomDeltaMap = Map.empty, execs = [], sitesOut = [], eventsOut = []\<rparr>"

text \<open>The flags' default values.\<close>

definition defaultConfig :: config where
  "defaultConfig =
     \<lparr>wpCliPath = ''/usr/local/bin/wp'', wpNetwork = 0, wpPath = ''/var/www/html'',
      heartbeatInt = 60\<rparr>"

text \<open>
  An environment that answers every call the same way: each child prints \<open>out\<close> and exits
  with \<open>status\<close>, the decoders return \<open>infos\<close> and \<open>sites\<close>, and every random draw is
  \<open>r\<close> reduced into the range asked for.
\<close>

definition fixedEnv ::
  "string \<Rightarrow> nat \<Rightarrow> siteInfo list option \<Rightarrow> site list option \<Rightarrow> nat \<Rightarrow> env" where
  "fixedEnv out status infos sites r =
     \<lparr>child = (\<lambda>hist name arg. (out, status)),
      unmarshalSiteInfo = (\<lambda>raw. infos),
      unmarshalSites = (\<lambda>raw. sites),
      randInt63n = (\<lambda>seed n. int r mod n),
      randIntn = (\<lambda>k n. r mod n)\<rparr>"

text \<open>
  The shuffle as the specification words it: for each index \<open>i\<close> from 0 upward, the
  element at \<open>i\<close> is swapped with the element at the index drawn for round \<open>i\<close>.
\<close>

definition fisherYates :: "(nat \<Rightarrow> nat \<Rightarrow> nat) \<Rightarrow> 'a list \<Rightarrow> 'a list" where
  "fisherYates intn xs =
     fold (\<lambda>i ys. ys[i := ys ! intn i (i + 1), intn i (i + 1) := ys ! i]) [0..<length xs] xs"


section \<open>Properties\<close>

lemma wrap64_id: "- (2 ^ 63) \<le> x \<Longrightarrow> x < 2 ^ 63 \<Longrightarrow> wrap64 x = x"
  by (simp add: wrap64_def)

subsection \<open>Arithmetic of the model\<close>

lemma sdiv_nonneg: "0 \<le> x \<Longrightarrow> 0 < y \<Longrightarrow> x sdiv y = x div y" for x y :: int
  by (cases "x = 0") (simp_all add: signed_divide_int_def)

lemma sdiv_nanoseconds:
  "0 \<le> x \<Longrightarrow> x sdiv 1000 sdiv 1000 sdiv 1000 = x div 1000000000" for x :: int
proof -
  assume x: "0 \<le> x"
  then have "x sdiv 1000 sdiv 1000 sdiv 1000 = x div 1000 div 1000 div 1000"
    by (simp add: sdiv_nonneg pos_imp_zdiv_nonneg_iff)
  also have "\<dots> = x div 1000000000"
    by (simp add: div_mult2_eq [symmetric])
  finally show ?thesis .
qed

subsection \<open>Back-off governor\<close>

text \<open>
  One call with \<open>disabled \<noteq> 0\<close>, for a counter small enough that three minutes times
  the counter fits an \<open>int64\<close> (started at 0, the counter never exceeds 21).
\<close>

lemma shouldGetSites_disabled_step:
  assumes "disabled \<noteq> 0" and "0 \<le> disabledLoopCount st"
    and "180000000000 * disabledLoopCount st < 2 ^ 63"
  shows "shouldGetSites disabled st =
     (False, Sleep (180000000000 * disabledLoopCount st)
        (st\<lparr>disabledLoopCount :=
            (if 1 < disabled \<and> wrap64 disabled < wrap64 (Unix st + 180 * disabledLoopCount st)
             then 0
             else if 20 < disabledLoopCount st then 0
             else disabledLoopCount st + 1)\<rparr>))"
proof -
  let ?c = "disabledLoopCount st"
  have c: "wrap64 ?c = ?c" using assms by (intro wrap64_id) auto
  have m: "wrap64 (Minute * 3) = 180000000000"
    by (simp add: wrap64_def Minute_def Second_def)
  have s: "wrap64 (180000000000 * ?c) = 180000000000 * ?c"
    using assms by (intro wrap64_id) auto
  have d: "(180000000000 * ?c) sdiv 1000 sdiv 1000 sdiv 1000 = 180 * ?c"
    using assms by (simp add: sdiv_nanoseconds)
  have u: "wrapU64 (?c + 1) = ?c + 1" using assms by (simp add: wrapU64_def)
  show ?thesis
    using assms unfolding shouldGetSites_def Let_def c m s d u
    by (auto simp add: Hour_def Minute_def Second_def Sleep_def)
qed

text \<open>
  Started at 0, the counter stays between 0 and 21: it is reset by the call that finds
  it at 21, whose sleep of 63 minutes exceeds one hour.
\<close>

lemma shouldGetSites_counter_bound:
  assumes "0 \<le> disabledLoopCount st" and "disabledLoopCount st \<le> 21"
  shows "0 \<le> disabledLoopCount (snd (shouldGetSites disabled st))
       \<and> disabledLoopCount (snd (shouldGetSites disabled st)) \<le> 21"
proof (cases "disabled = 0")
  case True
  then show ?thesis by (simp add: shouldGetSites_def)
next
  case False
  have "180000000000 * disabledLoopCount st < 2 ^ 63" using assms by simp
  from shouldGetSites_disabled_step [OF False assms(1) this] assms
  show ?thesis by (simp add: Sleep_def)
qed

text \<open>
  C4: called with \<open>disabled = 0\<close>, the governor returns true, leaves
  \<open>disabledLoopCount\<close> at 0 and does not sleep: nothing but the counter changes.
\<close>

theorem shouldGetSites_enabled:
  "shouldGetSites 0 st = (True, st\<lparr>disabledLoopCount := 0\<rparr>)"
  by (simp add: shouldGetSites_def)

text \<open>
  C1 (as amended): called with \<open>disabled = 1\<close>, the governor returns false, sleeps three
  minutes times the counter it found, and resets the counter when that sleep exceeds one
  hour, incrementing it otherwise. Ten consecutive calls from counter 0 therefore sleep
  0, 3, 6, ..., 27 minutes; the first reset comes with the 22nd call, which sleeps 63
  minutes, and the 23rd call sleeps 0 again.
\<close>

theorem governor_indefinite_backoff:
  assumes "0 \<le> disabledLoopCount st" and "3 * Minute * disabledLoopCount st < 2 ^ 63"
  shows "shouldGetSites 1 st =
           (False, Sleep (3 * Minute * disabledLoopCount st)
              (st\<lparr>disabledLoopCount :=
                  (if Hour < 3 * Minute * disabledLoopCount st then 0
                   else disabledLoopCount st + 1)\<rparr>))
         \<and> (disabledLoopCount st = 0 \<longrightarrow>
              governorCycles [1, 1, 1, 1, 1, 1, 1, 1, 1, 1] st =
                [(False, 0), (False, 3 * Minute), (False, 6 * Minute), (False, 9 * Minute),
                 (False, 12 * Minute), (False, 15 * Minute), (False, 18 * Minute),
                 (False, 21 * Minute), (False, 24 * Minute), (False, 27 * Minute)]
              \<and> map snd (governorCycles (replicate 23 1) st) =
                  map (\<lambda>k. 3 * Minute * int k) [0..<22] @ [0])"
proof (intro conjI impI)
  show "shouldGetSites 1 st =
           (False, Sleep (3 * Minute * disabledLoopCount st)
              (st\<lparr>disabledLoopCount :=
                  (if Hour < 3 * Minute * disabledLoopCount st then 0
                   else disabledLoopCount st + 1)\<rparr>))"
    using assms
    by (simp add: shouldGetSites_disabled_step Hour_def Minute_def Second_def wrap64_def)
next
  assume "disabledLoopCount st = 0"
  then show "governorCycles [1, 1, 1, 1, 1, 1, 1, 1, 1, 1] st =
                [(False, 0), (False, 3 * Minute), (False, 6 * Minute), (False, 9 * Minute),
                 (False, 12 * Minute), (False, 15 * Minute), (False, 18 * Minute),
                 (False, 21 * Minute), (False, 24 * Minute), (False, 27 * Minute)]"
    by (simp add: shouldGetSites_disabled_step Sleep_def Minute_def Second_def)
next
  assume c0: "disabledLoopCount st = 0"
  have "map snd (governorCycles [1, 1, 1, 1, 1, 1, 1, 1, 1, 1, 1, 1, 1, 1, 1, 1, 1, 1, 1, 1, 1, 1, 1] st) =
      [0, 180000000000, 360000000000, 540000000000, 720000000000, 900000000000,
       1080000000000, 1260000000000, 1440000000000, 1620000000000, 1800000000000,
       1980000000000, 2160000000000, 2340000000000, 2520000000000, 2700000000000,
       2880000000000, 3060000000000, 3240000000000, 3420000000000, 3600000000000,
       3780000000000, 0]"
    using c0 by (simp add: shouldGetSites_disabled_step Sleep_def)
  then show "map snd (governorCycles (replicate 23 1) st) =
      map (\<lambda>k. 3 * Minute * int k) [0..<22] @ [0]"
    by (simp add: eval_nat_numeral upt_rec Minute_def Second_def)
qed

theorem governor_indefinite_backoff_witness:
  "shouldGetSites 1 (initWorld 0) = (False, (initWorld 0)\<lparr>disabledLoopCount := 1\<rparr>)
   \<and> governorCycles [1, 1, 1, 1, 1, 1, 1, 1, 1, 1] (initWorld 0) =
        [(False, 0), (False, 3 * Minute), (False, 6 * Minute), (False, 9 * Minute),
         (False, 12 * Minute), (False, 15 * Minute), (False, 18 * Minute),
         (False, 21 * Minute), (False, 24 * Minute), (False, 27 * Minute)]"
proof -
  have h0: "disabledLoopCount (initWorld 0) = 0"
    by (simp add: initWorld_def)
  have h1: "0 \<le> disabledLoopCount (initWorld 0)"
    and h2: "3 * Minute * disabledLoopCount (initWorld 0) < 2 ^ 63"
    by (simp_all add: h0)
  note t = governor_indefinite_backoff [OF h1 h2]
  have a: "Sleep (3 * Minute * disabledLoopCount (initWorld 0))
             ((initWorld 0)\<lparr>disabledLoopCount :=
                 (if Hour < 3 * Minute * disabledLoopCount (initWorld 0) then 0
                  else disabledLoopCount (initWorld 0) + 1)\<rparr>) =
           (initWorld 0)\<lparr>disabledLoopCount := 1\<rparr>"
    by (simp add: h0 Sleep_def Hour_def Minute_def Second_def)
  from t have "shouldGetSites 1 (initWorld 0) = (False, (initWorld 0)\<lparr>disabledLoopCount := 1\<rparr>)"
    unfolding a by (rule conjunct1)
  moreover from t h0 have "governorCycles [1, 1, 1, 1, 1, 1, 1, 1, 1, 1] (initWorld 0) =
        [(False, 0), (False, 3 * Minute), (False, 6 * Minute), (False, 9 * Minute),
         (False, 12 * Minute), (False, 15 * Minute), (False, 18 * Minute),
         (False, 21 * Minute), (False, 24 * Minute), (False, 27 * Minute)]"
    by blast
  ultimately show ?thesis by (rule conjI)
qed

text \<open>
  The sequence C1 states ends in a sleep of 0 after the 24 minutes; the tenth call sleeps
  27 minutes.
\<close>

theorem governor_indefinite_backoff_counterexample:
  "map snd (governorCycles [1, 1, 1, 1, 1, 1, 1, 1, 1, 1] (initWorld 0)) \<noteq>
     [0, 3 * Minute, 6 * Minute, 9 * Minute, 12 * Minute, 15 * Minute, 18 * Minute,
      21 * Minute, 24 * Minute, 0]"
  by (simp add: shouldGetSites_disabled_step Sleep_def Minute_def Second_def initWorld_def)

text \<open>
  C3 (as amended): called with \<open>disabled > 1\<close>, a unix timestamp, the governor returns
  false and sleeps three minutes times the counter it found. It resets the counter when
  now plus that sleep, in seconds, is strictly later than the timestamp; otherwise it
  resets the counter when the sleep exceeds one hour and increments it when not.
\<close>

theorem governor_disabled_until:
  assumes "1 < disabled" and "disabled < 2 ^ 63"
    and "0 \<le> clock st" and "clock st < 2 ^ 63"
    and "0 \<le> disabledLoopCount st" and "3 * Minute * disabledLoopCount st < 2 ^ 63"
  shows "shouldGetSites disabled st =
           (False, Sleep (3 * Minute * disabledLoopCount st)
              (st\<lparr>disabledLoopCount :=
                  (if disabled < clock st div Second + 3 * Minute * disabledLoopCount st div Second
                   then 0
                   else if Hour < 3 * Minute * disabledLoopCount st then 0
                   else disabledLoopCount st + 1)\<rparr>))"
proof -
  let ?c = "disabledLoopCount st"
  have c: "180000000000 * ?c < 2 ^ 63" "0 \<le> ?c"
    using assms by (simp_all add: Minute_def Second_def)
  have u: "Unix st = clock st div 1000000000"
    unfolding Unix_def using assms by (intro wrap64_id) auto
  have s: "wrap64 (clock st div 1000000000 + 180 * ?c) = clock st div 1000000000 + 180 * ?c"
    using assms c by (intro wrap64_id) auto
  have d: "wrap64 disabled = disabled"
    using assms by (intro wrap64_id) auto
  show ?thesis
    using assms(1) c
    by (simp add: shouldGetSites_disabled_step u s d Hour_def Minute_def Second_def)
qed

text \<open>Scenario S4: \<open>Disabled = 100\<close> at \<open>now = 1000\<close> with the counter at 0.\<close>

theorem governor_disabled_until_witness:
  "shouldGetSites 100 (initWorld (1000 * Second)) = (False, initWorld (1000 * Second))"
  using governor_disabled_until [of 100 "initWorld (1000 * Second)"]
  by (simp add: initWorld_def Sleep_def Hour_def Minute_def Second_def)

text \<open>
  C3 as stated fails twice. At \<open>now + sleep = T\<close> the counter is incremented, not reset;
  and with \<open>T\<close> far ahead and a counter of 21 the counter is reset, not incremented,
  because the sleep of 63 minutes exceeds one hour.
\<close>

theorem governor_disabled_until_counterexample:
  "Unix (initWorld (1000 * Second)) + 0 = 1000
   \<and> disabledLoopCount (snd (shouldGetSites 1000 (initWorld (1000 * Second)))) = 1
   \<and> Unix ((initWorld 0)\<lparr>disabledLoopCount := 21\<rparr>) + 3 * Minute * 21 div Second < 4000000000
   \<and> disabledLoopCount
        (snd (shouldGetSites 4000000000 ((initWorld 0)\<lparr>disabledLoopCount := 21\<rparr>))) = 0"
  by (simp add: shouldGetSites_disabled_step initWorld_def Unix_def wrap64_def
      Sleep_def Minute_def Second_def)

subsection \<open>Command invoker\<close>

lemma runWpCliCmd_eq:
  "runWpCliCmd cfg e subcommand st =
     (let arg = subcommand @ [''--allow-root'', ''--quiet'', ''--path='' @ wpPath cfg]
                 @ (if 0 < wpNetwork cfg then [''--network='' @ formatInt (wpNetwork cfg)] else [])
      in ((fst (child e (execs st) (wpCliPath cfg) arg),
           if snd (child e (execs st) (wpCliPath cfg) arg) = 0 then None
           else Some (ExitError (snd (child e (execs st) (wpCliPath cfg) arg)))),
          st\<lparr>execs := execs st @ [(wpCliPath cfg, arg)]\<rparr>))"
  by (simp add: runWpCliCmd_def CombinedOutput_def Let_def split: prod.splits)



subsection \<open>Site retriever\<close>

lemma shouldGetSites_false: "d \<noteq> 0 \<Longrightarrow> fst (shouldGetSites d st) = False"
  by (simp add: shouldGetSites_def Let_def)

lemma shouldGetSites_execs: "execs (snd (shouldGetSites d st)) = execs st"
  by (simp add: shouldGetSites_def Let_def Sleep_def)

lemma getInstanceInfo_failure:
  assumes "child e (execs st) (wpCliPath cfg) arg = (out, status)"
    and "arg = [''cron-control'', ''orchestrate'', ''runner-only'', ''get-info'', ''--format=json'',
                ''--allow-root'', ''--quiet'', ''--path='' @ wpPath cfg]
               @ (if 0 < wpNetwork cfg then [''--network='' @ formatInt (wpNetwork cfg)] else [])"
    and "status \<noteq> 0 \<or> unmarshalSiteInfo e out = None"
  shows "getInstanceInfo cfg e st =
           Inr ((siteInfoZero, Some (if status \<noteq> 0 then ExitError status else UnmarshalError)),
                st\<lparr>execs := execs st @ [(wpCliPath cfg, arg)]\<rparr>)"
  using assms by (auto simp add: getInstanceInfo_def runWpCliCmd_eq Let_def)

text \<open>
  C7: when the \<open>get-info\<close> child exits with an error, or its output does not decode,
  \<open>getSites\<close> calls the governor with \<open>disabled = 1\<close>, which returns false; it starts no
  other child, and returns no sites together with the error.
\<close>

theorem getSites_info_failure:
  assumes "child e (execs st) (wpCliPath cfg) arg = (out, status)"
    and "arg = [''cron-control'', ''orchestrate'', ''runner-only'', ''get-info'', ''--format=json'',
                ''--allow-root'', ''--quiet'', ''--path='' @ wpPath cfg]
               @ (if 0 < wpNetwork cfg then [''--network='' @ formatInt (wpNetwork cfg)] else [])"
    and "status \<noteq> 0 \<or> unmarshalSiteInfo e out = None"
  shows "getSites cfg e st =
           Inr (([], Some (if status \<noteq> 0 then ExitError status else UnmarshalError)),
                snd (shouldGetSites 1 (st\<lparr>execs := execs st @ [(wpCliPath cfg, arg)]\<rparr>)))
         \<and> fst (shouldGetSites 1 (st\<lparr>execs := execs st @ [(wpCliPath cfg, arg)]\<rparr>)) = False
         \<and> execs (snd (shouldGetSites 1 (st\<lparr>execs := execs st @ [(wpCliPath cfg, arg)]\<rparr>)))
             = execs st @ [(wpCliPath cfg, arg)]"
proof -
  let ?st1 = "st\<lparr>execs := execs st @ [(wpCliPath cfg, arg)]\<rparr>"
  have f: "fst (shouldGetSites 1 ?st1) = False"
    by (simp add: shouldGetSites_false)
  have "getSites cfg e st =
           Inr (([], Some (if status \<noteq> 0 then ExitError status else UnmarshalError)),
                snd (shouldGetSites 1 ?st1))"
    using f
    by (cases "shouldGetSites 1 ?st1")
       (simp add: getSites_def getInstanceInfo_failure [OF assms] siteInfoZero_def)
  then show ?thesis using f by (simp add: shouldGetSites_execs)
qed

theorem getSites_info_failure_witness:
  "getSites defaultConfig (fixedEnv ''boom'' 1 None None 0) (initWorld 0) =
     Inr (([], Some (ExitError 1)),
          (initWorld 0)\<lparr>disabledLoopCount := 1,
             execs := [(''/usr/local/bin/wp'',
               [''cron-control'', ''orchestrate'', ''runner-only'', ''get-info'', ''--format=json'',
                ''--allow-root'', ''--quiet'', ''--path=/var/www/html''])]\<rparr>)
   \<and> getSites defaultConfig (fixedEnv ''not json'' 0 None None 0) (initWorld 0) =
     Inr (([], Some UnmarshalError),
          (initWorld 0)\<lparr>disabledLoopCount := 1,
             execs := [(''/usr/local/bin/wp'',
               [''cron-control'', ''orchestrate'', ''runner-only'', ''get-info'', ''--format=json'',
                ''--allow-root'', ''--quiet'', ''--path=/var/www/html''])]\<rparr>)"
proof -
  let ?arg = "[''cron-control'', ''orchestrate'', ''runner-only'', ''get-info'', ''--format=json'',
                ''--allow-root'', ''--quiet'', ''--path='' @ wpPath defaultConfig]
               @ (if 0 < wpNetwork defaultConfig
                  then [''--network='' @ formatInt (wpNetwork defaultConfig)] else [])"
  have c1: "child (fixedEnv ''boom'' 1 None None 0) (execs (initWorld 0))
              (wpCliPath defaultConfig) ?arg = (''boom'', 1)"
    and c2: "child (fixedEnv ''not json'' 0 None None 0) (execs (initWorld 0))
              (wpCliPath defaultConfig) ?arg = (''not json'', 0)"
    by (simp_all add: fixedEnv_def)
  have f1: "(1::nat) \<noteq> 0 \<or> unmarshalSiteInfo (fixedEnv ''boom'' 1 None None 0) ''boom'' = None"
    by simp
  have f2: "(0::nat) \<noteq> 0
      \<or> unmarshalSiteInfo (fixedEnv ''not json'' 0 None None 0) ''not json'' = None"
    by (simp add: fixedEnv_def)
  have g: "snd (shouldGetSites 1 ((initWorld 0)\<lparr>execs := xs\<rparr>)) =
      (initWorld 0)\<lparr>disabledLoopCount := 1, execs := xs\<rparr>" for xs
    by (simp add: shouldGetSites_disabled_step initWorld_def Sleep_def)
  show ?thesis
    using getSites_info_failure [OF c1 refl f1] getSites_info_failure [OF c2 refl f2]
    by (simp add: g) (simp add: defaultConfig_def initWorld_def)
qed

text \<open>
  C10: \<open>getInstanceInfo\<close> returns the first element of the decoded array when there is
  one. When the child succeeds and its output decodes to the empty array, no error
  branch is taken and the access \<open>jsonRes[0]\<close> is out of range: the call panics, and so
  does \<open>getSites\<close>.
\<close>

theorem getInstanceInfo_first_element:
  assumes "runWpCliCmd cfg e
             [''cron-control'', ''orchestrate'', ''runner-only'', ''get-info'', ''--format=json''] st
           = ((raw, None), st1)"
  shows "(unmarshalSiteInfo e raw = Some [] \<longrightarrow> getInstanceInfo cfg e st = Inl IndexOutOfRange
            \<and> getSites cfg e st = Inl IndexOutOfRange)
       \<and> (\<forall>x xs. unmarshalSiteInfo e raw = Some (x # xs) \<longrightarrow>
            getInstanceInfo cfg e st = Inr ((x, None), st1))"
  using assms by (simp add: getInstanceInfo_def getSites_def)

theorem getInstanceInfo_first_element_witness:
  "getInstanceInfo defaultConfig (fixedEnv ''[]'' 0 (Some []) None 0) (initWorld 0)
     = Inl IndexOutOfRange
   \<and> getInstanceInfo defaultConfig
        (fixedEnv ''[{}]'' 0 (Some [\<lparr>Multisite = 0, Siteurl = ''https://a.example'', Disabled = 0\<rparr>])
           None 0) (initWorld 0)
     = Inr ((\<lparr>Multisite = 0, Siteurl = ''https://a.example'', Disabled = 0\<rparr>, None),
            (initWorld 0)\<lparr>execs := [(''/usr/local/bin/wp'',
               [''cron-control'', ''orchestrate'', ''runner-only'', ''get-info'', ''--format=json'',
                ''--allow-root'', ''--quiet'', ''--path=/var/www/html''])]\<rparr>)"
proof -
  let ?sub = "[''cron-control'', ''orchestrate'', ''runner-only'', ''get-info'', ''--format=json'']"
  let ?st1 = "(initWorld 0)\<lparr>execs := [(''/usr/local/bin/wp'',
               [''cron-control'', ''orchestrate'', ''runner-only'', ''get-info'', ''--format=json'',
                ''--allow-root'', ''--quiet'', ''--path=/var/www/html''])]\<rparr>"
  let ?info = "\<lparr>Multisite = 0, Siteurl = ''https://a.example'', Disabled = 0\<rparr>"
  have r1: "runWpCliCmd defaultConfig (fixedEnv ''[]'' 0 (Some []) None 0) ?sub (initWorld 0)
      = ((''[]'', None), ?st1)"
    by (simp add: runWpCliCmd_eq fixedEnv_def defaultConfig_def initWorld_def)
  have r2: "runWpCliCmd defaultConfig (fixedEnv ''[{}]'' 0 (Some [?info]) None 0) ?sub (initWorld 0)
      = ((''[{}]'', None), ?st1)"
    by (simp add: runWpCliCmd_eq fixedEnv_def defaultConfig_def initWorld_def)
  have u1: "unmarshalSiteInfo (fixedEnv ''[]'' 0 (Some []) None 0) ''[]'' = Some []"
    and u2: "unmarshalSiteInfo (fixedEnv ''[{}]'' 0 (Some [?info]) None 0) ''[{}]'' = Some [?info]"
    by (simp_all add: fixedEnv_def)
  from getInstanceInfo_first_element [OF r1] u1
  have "getInstanceInfo defaultConfig (fixedEnv ''[]'' 0 (Some []) None 0) (initWorld 0)
     = Inl IndexOutOfRange"
    by blast
  moreover from getInstanceInfo_first_element [OF r2] u2
  have "getInstanceInfo defaultConfig (fixedEnv ''[{}]'' 0 (Some [?info]) None 0) (initWorld 0)
     = Inr ((?info, None), ?st1)"
    by blast
  ultimately show ?thesis by (rule conjI)
qed

lemma shuffleLoop_mset:
  "(\<And>k. i \<le> k \<Longrightarrow> k < length xs \<Longrightarrow> intn k (k + 1) \<le> k) \<Longrightarrow>
     mset (shuffleLoop intn i xs) = mset xs"
proof (induction intn i xs rule: shuffleLoop.induct)
  case (1 intn i jsonRes)
  show ?case
  proof (cases "i < length jsonRes")
    case True
    let ?j = "intn i (i + 1)"
    let ?ys = "jsonRes[i := jsonRes ! ?j, ?j := jsonRes ! i]"
    have j: "?j < length jsonRes" using True 1(2)[of i] by simp
    have "mset (shuffleLoop intn (i + 1) ?ys) = mset ?ys"
      using True 1(2) by (intro 1(1)) auto
    also have "\<dots> = mset jsonRes"
      using True j by (simp add: mset_swap)
    finally show ?thesis using True by (subst shuffleLoop.simps) (simp add: Let_def)
  next
    case False
    then show ?thesis by (subst shuffleLoop.simps) simp
  qed
qed

lemma shuffleLoop_length: "length (shuffleLoop intn i xs) = length xs"
  by (induction intn i xs rule: shuffleLoop.induct)
     (subst shuffleLoop.simps, simp add: Let_def)

lemma shuffleLoop_fold:
  "shuffleLoop intn i xs =
     fold (\<lambda>i ys. ys[i := ys ! intn i (i + 1), intn i (i + 1) := ys ! i]) [i..<length xs] xs"
proof (induction intn i xs rule: shuffleLoop.induct)
  case (1 intn i jsonRes)
  show ?case
  proof (cases "i < length jsonRes")
    case True
    then show ?thesis
      using 1 [OF True refl]
      by (subst shuffleLoop.simps) (simp add: Let_def upt_rec [of i])
  next
    case False
    then show ?thesis by (subst shuffleLoop.simps) simp
  qed
qed

text \<open>
  C5: when the \<open>site list\<close> child succeeds and its output decodes to \<open>sites\<close>,
  \<open>getMultisiteSites\<close> returns a permutation of \<open>sites\<close>, the result of the in-order
  pass that swaps, for each index \<open>i\<close> from 0 upward, the element at \<open>i\<close> with the one at
  the index drawn from \<open>[0, i]\<close>.
\<close>

theorem getMultisiteSites_permutation:
  assumes "runWpCliCmd cfg e
             [''site'', ''list'', ''--fields=url'', ''--archived=false'', ''--deleted=false'',
              ''--spam=false'', ''--format=json''] st = ((raw, None), st1)"
    and "unmarshalSites e raw = Some sites"
    and "\<forall>i<length sites. randIntn e i (i + 1) \<le> i"
  shows "\<exists>ys. getMultisiteSites cfg e st = ((ys, None), st1)
            \<and> mset ys = mset sites
            \<and> ys = fisherYates (randIntn e) sites"
proof -
  have "getMultisiteSites cfg e st = ((shuffleLoop (randIntn e) 0 sites, None), st1)"
    using assms(1,2) by (simp add: getMultisiteSites_def)
  moreover have "mset (shuffleLoop (randIntn e) 0 sites) = mset sites"
    using assms(3) by (intro shuffleLoop_mset) simp
  moreover have "shuffleLoop (randIntn e) 0 sites = fisherYates (randIntn e) sites"
    by (simp add: shuffleLoop_fold fisherYates_def)
  ultimately show ?thesis by simp
qed

theorem getMultisiteSites_permutation_witness:
  "getMultisiteSites defaultConfig
     (fixedEnv ''[]'' 0 None (Some [\<lparr>URL = ''a''\<rparr>, \<lparr>URL = ''b''\<rparr>, \<lparr>URL = ''c''\<rparr>]) 1)
     (initWorld 0) =
   (([\<lparr>URL = ''a''\<rparr>, \<lparr>URL = ''c''\<rparr>, \<lparr>URL = ''b''\<rparr>], None),
    (initWorld 0)\<lparr>execs := [(''/usr/local/bin/wp'',
       [''site'', ''list'', ''--fields=url'', ''--archived=false'', ''--deleted=false'',
        ''--spam=false'', ''--format=json'', ''--allow-root'', ''--quiet'',
        ''--path=/var/www/html''])]\<rparr>)"
proof -
  let ?sites = "[\<lparr>URL = ''a''\<rparr>, \<lparr>URL = ''b''\<rparr>, \<lparr>URL = ''c''\<rparr>]"
  let ?e = "fixedEnv ''[]'' 0 None (Some ?sites) 1"
  let ?st1 = "(initWorld 0)\<lparr>execs := [(''/usr/local/bin/wp'',
       [''site'', ''list'', ''--fields=url'', ''--archived=false'', ''--deleted=false'',
        ''--spam=false'', ''--format=json'', ''--allow-root'', ''--quiet'',
        ''--path=/var/www/html''])]\<rparr>"
  have r: "runWpCliCmd defaultConfig ?e
             [''site'', ''list'', ''--fields=url'', ''--archived=false'', ''--deleted=false'',
              ''--spam=false'', ''--format=json''] (initWorld 0) = ((''[]'', None), ?st1)"
    by (simp add: runWpCliCmd_eq fixedEnv_def defaultConfig_def initWorld_def)
  have u: "unmarshalSites ?e ''[]'' = Some ?sites"
    by (simp add: fixedEnv_def)
  have j: "\<forall>i<length ?sites. randIntn ?e i (i + 1) \<le> i"
    by (simp add: fixedEnv_def less_Suc_eq_le [symmetric])
  have f: "fisherYates (randIntn ?e) ?sites = [\<lparr>URL = ''a''\<rparr>, \<lparr>URL = ''c''\<rparr>, \<lparr>URL = ''b''\<rparr>]"
    by (simp add: fisherYates_def fixedEnv_def upt_rec)
  from getMultisiteSites_permutation [OF r u j] show ?thesis
    unfolding f by blast
qed

subsection \<open>Event worker\<close>

text \<open>
  C6: an event whose timestamp is later than the current unix time is skipped. The loop
  body leaves the state as it found it, so no child is started and the success counter,
  the error counter and the shutdown flag keep their values; the loop goes on as if the
  event had not been received.
\<close>

theorem runEvents_skips_premature:
  assumes "Unix st < Timestamp ev"
  shows "runEventsBody cfg e ev st = Some (Inr (if gRestart st then Break else Continue, st))
       \<and> runEventsLoop cfg e (ev # evs) st = runEventsLoop cfg e evs st"
proof -
  have b: "runEventsBody cfg e ev st = Some (Inr (if gRestart st then Break else Continue, st))"
    using assms by (simp add: runEventsBody_def)
  have "runEventsLoop cfg e (ev # evs) st = runEventsLoop cfg e evs st"
  proof (cases "gRestart st")
    case True
    then show ?thesis
      by (cases evs) (simp_all add: b runEventsBody_def)
  next
    case False
    then show ?thesis by (simp add: b)
  qed
  with b show ?thesis by simp
qed

theorem runEvents_skips_premature_witness:
  "runEventsBody defaultConfig (fixedEnv [] 0 None None 0)
      \<lparr>EventURL = ''https://a.example'', Timestamp = 1000 + 3600, Action = ''x'', Instance = ''i1''\<rparr>
      (initWorld (1000 * Second)) = Some (Inr (Continue, initWorld (1000 * Second)))"
proof -
  have "Unix (initWorld (1000 * Second))
      < Timestamp \<lparr>EventURL = ''https://a.example'', Timestamp = 1000 + 3600, Action = ''x'',
                    Instance = ''i1''\<rparr>"
    by (simp add: Unix_def initWorld_def Second_def wrap64_def)
  from runEvents_skips_premature [OF this, of defaultConfig "fixedEnv [] 0 None None 0" "[]"]
  show ?thesis by (simp add: initWorld_def)
qed

subsection \<open>Periodic waiter\<close>

lemma UnixNano_id: "0 \<le> clock st \<Longrightarrow> clock st < 2 ^ 63 \<Longrightarrow> UnixNano st = clock st"
  by (simp add: UnixNano_def wrap64_id)

lemma smod_nonneg: "0 \<le> x \<Longrightarrow> 0 < y \<Longrightarrow> x smod y = x mod y" for x y :: int
  by (cases "x = 0") (simp_all add: signed_modulo_int_def)

text \<open>One round of the sleep loop when no operation leaves the \<open>int64\<close> range.\<close>

lemma waitLoop_in_range:
  assumes "0 \<le> clock st" and "clock st < 2 ^ 63" and "tNext < 2 ^ 63"
    and "0 \<le> E" and "2 * E + 3000000000 < 2 ^ 63" and "0 \<le> i"
  shows "waitLoop tNext E i st =
     (if clock st < tNext then
        if 2 * E < i then Some st
        else if gRestart st then Some st
        else waitLoop tNext E (i + min 3000000000 (tNext - clock st))
               (st\<lparr>clock := clock st + min 3000000000 (tNext - clock st)\<rparr>)
      else Some st)"
proof -
  have u: "UnixNano st = clock st" using assms by (intro UnixNano_id) auto
  have e2: "wrap64 (E * 2) = 2 * E" using assms by (simp add: wrap64_id)
  show ?thesis
  proof (cases "clock st < tNext \<and> \<not> 2 * E < i \<and> \<not> gRestart st")
    case False
    then show ?thesis by (subst waitLoop.simps) (auto simp add: u e2)
  next
    case True
    let ?d = "tNext - clock st"
    have m: "wrap64 (3 * Second) = 3000000000" by (simp add: wrap64_def Second_def)
    have d: "wrap64 ?d = ?d" using True assms by (intro wrap64_id) auto
    have t: "(if 3000000000 < ?d then 3000000000 else ?d) = min 3000000000 ?d" by simp
    have t0: "0 < min 3000000000 ?d" using True by simp
    have i': "wrap64 (i + min 3000000000 ?d) = i + min 3000000000 ?d"
      using assms True by (intro wrap64_id) auto
    have "waitLoop tNext E i st =
        waitLoop tNext E (i + min 3000000000 ?d) (st\<lparr>clock := clock st + min 3000000000 ?d\<rparr>)"
      using True
      by (subst waitLoop.simps) (simp only: u e2 m d t Let_def i' Sleep_def t0 if_True if_False)
    with True show ?thesis by simp
  qed
qed




text \<open>
  With a shutdown pending, the loop ends in its first round, whatever the time is.
\<close>

lemma waitLoop_restart:
  assumes "gRestart st" and "3000000000 \<le> 2 * E" and "2 * E < 2 ^ 63"
  shows "waitLoop tNext E 3000000000 st = Some st"
proof -
  have "wrap64 (E * 2) = 2 * E" using assms by (simp add: wrap64_id)
  with assms show ?thesis by (subst waitLoop.simps) simp
qed

text \<open>
  \<open>waitForEpoch\<close> for a period of at least one second, when no operation leaves the
  \<open>int64\<close> range: the target \<open>T\<close> of the wait and the loop that sleeps towards it.
\<close>

lemma waitForEpoch_in_range:
  assumes "0 < epoch_sec" and "0 \<le> clock st"
    and "clock st + 4 * (epoch_sec * Second) < 2 ^ 63"
    and "off = (case gRandomDeltaMap st whom of
                  Some d \<Rightarrow> d
                | None \<Rightarrow> randInt63n e (clock st + epoch_sec) (epoch_sec * Second))"
    and "0 \<le> off" and "off < epoch_sec * Second"
    and "T = epoch_sec * Second *
               (clock st div (epoch_sec * Second)
                 + (if epoch_sec * Second - clock st mod (epoch_sec * Second) < Second
                    then 2 else 1))
             + off"
  shows "waitForEpoch e whom epoch_sec st =
           map_option Inr
             (waitLoop T (epoch_sec * Second) 3000000000
                (st\<lparr>gRandomDeltaMap := (gRandomDeltaMap st)(whom \<mapsto> off)\<rparr>))"
    and "clock st + Second \<le> T" and "T mod (epoch_sec * Second) = off"
    and "T < clock st + 3 * (epoch_sec * Second)"
proof -
  define E where "E = epoch_sec * 1000000000"
  define r where "r = clock st mod E"
  have E: "1000000000 \<le> E" "epoch_sec \<le> E" using assms(1) by (simp_all add: E_def)
  have r: "0 \<le> r" "r < E" using E by (simp_all add: r_def)
  have c: "clock st + 4 * E < 2 ^ 63" using assms(3) by (simp add: E_def Second_def)
  note c0 = assms(2)
  have off: "0 \<le> off" "off < E" using assms(5,6) by (simp_all add: E_def Second_def)
  define delta where "delta = (if E - r < 1000000000 then 2 * E - r else E - r)"
  have delta: "1000000000 \<le> delta" "delta \<le> 2 * E" using r E by (auto simp: delta_def)
  have dm: "clock st = E * (clock st div E) + r" by (simp add: r_def)
  have T: "T = clock st + delta + off"
    unfolding assms(7) delta_def Second_def E_def [symmetric] r_def [symmetric]
    using dm by (simp add: algebra_simps)
  have T2: "T = E * (clock st div E + (if E - r < 1000000000 then 2 else 1)) + off"
    unfolding assms(7) Second_def E_def [symmetric] r_def [symmetric] by simp
  have Tmod: "T mod E = off"
    unfolding T2 using off by simp
  have Tge: "clock st + 1000000000 \<le> T" using T delta off by simp
  have Tlt: "T < clock st + 3 * E" using T delta off by simp
  have u: "UnixNano st = clock st" using c0 c E by (intro UnixNano_id) auto
  have wE: "wrap64 (epoch_sec * Second) = E"
    unfolding Second_def E_def [symmetric] using c c0 E by (intro wrap64_id) auto
  have sm: "clock st smod E = r" using c0 E by (simp add: smod_nonneg r_def)
  have w1: "wrap64 (E - r) = E - r" using r c c0 by (intro wrap64_id) auto
  have w2': "wrap64 (2 * E - r) = 2 * E - r" using r c c0 by (intro wrap64_id) auto
  have w2: "wrap64 (E - r + E) = 2 * E - r" using w2' by (simp add: algebra_simps)
  have w3: "wrap64 (clock st + epoch_sec) = clock st + epoch_sec"
    using c c0 E assms(1) by (intro wrap64_id) auto
  have w4: "wrap64 (clock st + delta) = clock st + delta"
    using c c0 delta by (intro wrap64_id) auto
  have w5: "wrap64 (clock st + delta + off) = T"
    unfolding T [symmetric] using Tlt Tge c c0 by (intro wrap64_id) auto
  have w6: "wrap64 (3 * Second) = 3000000000" by (simp add: wrap64_def Second_def)
  have d': "(if E - r < 1 * Second then 2 * E - r else E - r) = delta"
    by (simp add: delta_def Second_def)
  let ?st1 = "st\<lparr>gRandomDeltaMap := (gRandomDeltaMap st)(whom \<mapsto> off)\<rparr>"
  have u1: "UnixNano (s\<lparr>gRandomDeltaMap := m\<rparr>) = UnixNano s" for s m
    by (simp add: UnixNano_def)
  have body: "waitForEpoch e whom epoch_sec st =
      (if E = 0 then Some (Inl DivideByZero)
       else case (case gRandomDeltaMap st whom of
                    Some d \<Rightarrow> Inr (d, st)
                  | None \<Rightarrow>
                      if E \<le> 0 then Inl Int63nInvalidArgument
                      else Inr (randInt63n e (clock st + epoch_sec) E,
                                st\<lparr>gRandomDeltaMap := (gRandomDeltaMap st)
                                     (whom \<mapsto> randInt63n e (clock st + epoch_sec) E)\<rparr>)) of
              Inl p \<Rightarrow> Some (Inl p)
            | Inr (d, st1) \<Rightarrow>
                map_option Inr
                  (waitLoop (wrap64 (wrap64 (UnixNano st1 + delta) + d)) E 3000000000 st1))"
    by (simp only: waitForEpoch_def Let_def wE u sm w1 w2 d' w3 w6)
  have "waitForEpoch e whom epoch_sec st = map_option Inr (waitLoop T E 3000000000 ?st1)"
  proof (cases "gRandomDeltaMap st whom")
    case None
    then have o: "randInt63n e (clock st + epoch_sec) E = off"
      using assms(4) by (simp add: E_def Second_def)
    show ?thesis
      unfolding body using None E by (simp add: o u1 u w4 w5)
  next
    case (Some d)
    then have o: "d = off" using assms(4) by simp
    have same: "?st1 = st" using Some o by (simp add: map_upd_triv)
    show ?thesis
      unfolding body using Some E by (simp add: o u w4 w5 same)
  qed
  then show "waitForEpoch e whom epoch_sec st =
           map_option Inr
             (waitLoop T (epoch_sec * Second) 3000000000
                (st\<lparr>gRandomDeltaMap := (gRandomDeltaMap st)(whom \<mapsto> off)\<rparr>))"
    by (simp add: E_def Second_def)
  show "clock st + Second \<le> T" using Tge by (simp add: Second_def)
  show "T mod (epoch_sec * Second) = off" using Tmod by (simp add: E_def Second_def)
  show "T < clock st + 3 * (epoch_sec * Second)" using Tlt by (simp add: E_def Second_def)
qed




text \<open>
  The watchdog also ends waits that are within two periods: for the ten-second wait of
  the event workers the loop variable passes twenty seconds after six slices, and a
  target 19.5 seconds away is given up after 18 seconds.
\<close>

lemma waitForEpoch_watchdog_example:
  "waitForEpoch (fixedEnv [] 0 None None 9500000000) ''runEvents'' 10 (initWorld 0) =
     Some (Inr ((initWorld 0)
                  \<lparr>gRandomDeltaMap := [''runEvents'' \<mapsto> 9500000000], clock := 18 * Second\<rparr>))"
proof -
  let ?e = "fixedEnv [] 0 None None 9500000000"
  let ?st = "initWorld 0"
  have h1: "(0::int) < 10" by simp
  have h2: "0 \<le> clock ?st" by (simp add: initWorld_def)
  have h3: "clock ?st + 4 * (10 * Second) < 2 ^ 63" by (simp add: initWorld_def Second_def)
  have h4: "9500000000 = (case gRandomDeltaMap ?st ''runEvents'' of
                  Some d \<Rightarrow> d
                | None \<Rightarrow> randInt63n ?e (clock ?st + 10) (10 * Second))"
    by (simp add: initWorld_def fixedEnv_def Second_def)
  have h5: "(0::int) \<le> 9500000000" by simp
  have h6: "9500000000 < 10 * Second" by (simp add: Second_def)
  have h7: "19500000000 = 10 * Second *
               (clock ?st div (10 * Second)
                 + (if 10 * Second - clock ?st mod (10 * Second) < Second then 2 else 1))
             + 9500000000"
    by (simp add: initWorld_def Second_def)
  show ?thesis
    unfolding waitForEpoch_in_range(1) [OF h1 h2 h3 h4 h5 h6 h7]
    by (simp add: initWorld_def Second_def waitLoop_in_range)
qed

subsection \<open>Heartbeat and drain\<close>








text \<open>
  With the heartbeat enabled the same state leads into the drain phase, which exits with
  code 0 when no worker is marked as running.
\<close>

lemma heartbeat_enabled_drains_example:
  "heartbeat defaultConfig (fixedEnv [] 0 None None 5) ((initWorld 0)\<lparr>gRestart := True\<rparr>)
     = Some (Inr (Exited 0,
          (initWorld 0)\<lparr>gRestart := True, gRandomDeltaMap := [''heartbeat'' \<mapsto> 5]\<rparr>))"
proof -
  let ?e = "fixedEnv [] 0 None None 5"
  let ?st = "(initWorld 0)\<lparr>gRestart := True\<rparr>"
  let ?st1 = "(initWorld 0)\<lparr>gRestart := True, gRandomDeltaMap := [''heartbeat'' \<mapsto> 5]\<rparr>"
  have h1: "(0::int) < 60" by simp
  have h2: "0 \<le> clock ?st" by (simp add: initWorld_def)
  have h3: "clock ?st + 4 * (60 * Second) < 2 ^ 63" by (simp add: initWorld_def Second_def)
  have h5: "5 = (case gRandomDeltaMap ?st ''heartbeat'' of
                  Some d \<Rightarrow> d
                | None \<Rightarrow> randInt63n ?e (clock ?st + 60) (60 * Second))"
    by (simp add: initWorld_def fixedEnv_def Second_def)
  have h6: "(0::int) \<le> 5" by simp
  have h7: "5 < 60 * Second" by (simp add: Second_def)
  have h8: "60 * Second + 5 = 60 * Second *
               (clock ?st div (60 * Second)
                 + (if 60 * Second - clock ?st mod (60 * Second) < Second then 2 else 1))
             + 5"
    by (simp add: initWorld_def Second_def)
  have l: "waitLoop (60 * Second + 5) (60 * Second) 3000000000
             (?st\<lparr>gRandomDeltaMap := (gRandomDeltaMap ?st)(''heartbeat'' \<mapsto> 5)\<rparr>)
           = Some (?st\<lparr>gRandomDeltaMap := (gRandomDeltaMap ?st)(''heartbeat'' \<mapsto> 5)\<rparr>)"
    by (rule waitLoop_restart) (simp_all add: Second_def)
  have "waitForEpoch ?e ''heartbeat'' 60 ?st = Some (Inr ?st1)"
    unfolding waitForEpoch_in_range(1) [OF h1 h2 h3 h5 h6 h7 h8] l
    by (simp add: initWorld_def)
  then have w: "waitForEpoch ?e ''heartbeat'' (heartbeatInt defaultConfig) ?st = Some (Inr ?st1)"
    by (simp add: defaultConfig_def)
  have "heartbeatLoop defaultConfig ?e ?st = Some (Inr ?st1)"
    by (subst heartbeatLoop.simps) (simp add: w)
  moreover have "drainLoop ?st1 = Some (Exited 0, ?st1)"
    by (subst drainLoop.simps) (simp add: initWorld_def)
  ultimately show ?thesis
    by (simp add: heartbeat_def defaultConfig_def)
qed

end
